theory Spec2Isabelle
  imports Main "HOL-Library.Sublist" "HOL-Library.AList"
begin

section \<open>Strings, paths and JSON values\<close>

text \<open>
  Python strings are modelled as \<^typ>\<open>string\<close> (lists of 8-bit characters).
  \<open>str.lower()\<close> is modelled on the ASCII letters, every other character is kept.
\<close>

definition lower_char :: "char \<Rightarrow> char" where
  "lower_char c =
     (case map_of (zip ''ABCDEFGHIJKLMNOPQRSTUVWXYZ'' ''abcdefghijklmnopqrstuvwxyz'') c of
        None \<Rightarrow> c
      | Some d \<Rightarrow> d)"

definition lower :: "string \<Rightarrow> string" where
  "lower s = map lower_char s"

text \<open>\<open>marker in text\<close>: the text has the marker as a contiguous substring.\<close>

fun contains :: "string \<Rightarrow> string \<Rightarrow> bool" where
  "contains [] m = (m = [])"
| "contains (c # cs) m = (prefix m (c # cs) \<or> contains cs m)"

text \<open>
  A \<open>pathlib.Path\<close> is represented by its \<open>str()\<close>, a string in pathlib's normal form;
  \<open>Path(s)\<close> and \<open>str(p)\<close> are then the identity, and two paths are equal when their
  strings are. The one normalisation kept is that of the empty string, which pathlib
  reads as the current directory. \<open>p / name\<close> appends one component.
\<close>

type_synonym path = string

definition Path :: "string \<Rightarrow> path" where
  "Path s = (if s = [] then ''.'' else s)"

definition joinp :: "path \<Rightarrow> string \<Rightarrow> path" where
  "joinp p name =
     (if p = ''.'' then name
      else if p = ''/'' then p @ name
      else p @ ''/'' @ name)"

text \<open>
  The values that occur in a startup report. \<open>JSecs n\<close> is a float number of seconds
  rounded to three decimals, held as \<open>n\<close> milliseconds. A Python dict is an association
  list in insertion order; \<open>d[k] = v\<close> is \<^const>\<open>AList.update\<close> and \<open>d.get(k)\<close> is
  \<^const>\<open>map_of\<close>.
\<close>

datatype json =
    JNull
  | JBool bool
  | JInt int
  | JSecs nat
  | JStr string
  | JList "json list"
  | JDict "(string \<times> json) list"

type_synonym dict = "(string \<times> json) list"

section \<open>Crash classification and output tails\<close>

definition crash_markers :: "string list" where
  "crash_markers =
     [''nsrangeexception'',
      ''libmlx'',
      ''mlx_random_key'',
      ''metalallocator'',
      ''index 0 beyond bounds for empty array'']"

text \<open>\<open>_is_mlx_crash(stderr)\<close>; \<open>None\<close> is a missing stderr (\<open>stderr or ""\<close>).\<close>

definition is_mlx_crash :: "string option \<Rightarrow> bool" where
  "is_mlx_crash stderr =
     (let text = lower (case stderr of None \<Rightarrow> [] | Some s \<Rightarrow> s)
      in list_ex (\<lambda>marker. contains text marker) crash_markers)"

text \<open>
  \<open>_tail(text, max_chars)\<close>. The slice \<open>text[-max_chars:]\<close> is the whole text when
  \<open>max_chars\<close> is 0.
\<close>

definition tail :: "string \<Rightarrow> nat \<Rightarrow> string" where
  "tail text max_chars =
     (if length text \<le> max_chars then text
      else if max_chars = 0 then text
      else drop (length text - max_chars) text)"

section \<open>The host and the process-wide state\<close>

text \<open>
  What the module reads from its surroundings is a \<open>host\<close>: the environment variables,
  the installation layout, the file system, and the answers of everything the module
  calls outside itself (HTTP, subprocesses, the lock as other threads leave it). An answer
  that can change while a call runs is indexed by a tick that advances at each such call.
  The file system is fixed for the duration of one call.
\<close>

datatype exn =
    TimeoutError string
  | OSError string

fun exn_str :: "exn \<Rightarrow> string" where
  "exn_str (TimeoutError msg) = msg"
| "exn_str (OSError msg) = msg"

text \<open>The outcome of \<open>subprocess.run\<close>: completed with return code, stdout and stderr,
  \<open>TimeoutExpired\<close>, or another exception with its message.\<close>

datatype run_outcome =
    Completed int string string
  | TimeoutExpired
  | RunFailed string

record host =
  environ :: "(string \<times> string) list"
  frozen :: bool
  meipass :: path
  exe_dir :: path
  package_dir :: path
  which_run :: run_outcome
  path_exists :: "path \<Rightarrow> bool"
  access_x :: "path \<Rightarrow> bool"
  resolve :: "path \<Rightarrow> path option"
  persist_ok :: bool
  latency :: "nat \<Rightarrow> nat"
  urlopen :: "nat \<Rightarrow> string \<Rightarrow> nat \<Rightarrow> exn + int"
  lock_free :: "nat \<Rightarrow> bool"
  subprocess_run :: "nat \<Rightarrow> string list \<Rightarrow> (string \<times> string) list \<Rightarrow> run_outcome"
  popen :: "nat \<Rightarrow> string list \<Rightarrow> (string \<times> string) list \<Rightarrow> exn + nat"
  proc_exit :: "nat \<Rightarrow> int option"
  communicate :: "nat \<Rightarrow> exn + string option"
  terminate_wait :: "nat \<Rightarrow> bool"

text \<open>The effects of a call, in the order they happen.\<close>

datatype event =
    HttpGet string nat bool
  | LockTry bool
  | LockRelease
  | Sleep nat
  | Probe path
  | Popen path "exn + nat"
  | Poll "int option"
  | Communicate
  | Terminate
  | Kill
  | SetSelected path
  | SetReport dict

text \<open>The content of the persisted report file.\<close>

datatype disk_file = Absent | Unreadable | Payload json

text \<open>
  The module's globals (\<open>_selected_ollama_binary\<close>, \<open>_last_startup_report\<close>, whether this
  caller holds \<open>_startup_lock\<close>), the report file, the clock in milliseconds, the cached
  return code of the process started last, and the trace of effects.
\<close>

record state =
  now :: nat
  tick :: nat
  selected_ollama_binary :: "path option"
  last_startup_report :: dict
  disk :: disk_file
  lock_held :: bool
  proc_returncode :: "int option"
  trace :: "event list"

definition env_call :: "host \<Rightarrow> state \<Rightarrow> state" where
  "env_call h s = s\<lparr>now := now s + latency h (tick s), tick := Suc (tick s)\<rparr>"

definition log :: "event \<Rightarrow> state \<Rightarrow> state" where
  "log e s = s\<lparr>trace := trace s @ [e]\<rparr>"

definition sleep :: "host \<Rightarrow> nat \<Rightarrow> state \<Rightarrow> state" where
  "sleep h ms s = log (Sleep ms) ((env_call h s)\<lparr>now := now s + ms + latency h (tick s)\<rparr>)"

section \<open>Persisted startup report\<close>

definition set_startup_report :: "host \<Rightarrow> dict \<Rightarrow> state \<Rightarrow> state" where
  "set_startup_report h report s =
     log (SetReport report)
       (s\<lparr>last_startup_report := report,
          disk := (if persist_ok h then Payload (JDict report) else disk s)\<rparr>)"

definition load_startup_report_from_disk :: "state \<Rightarrow> dict" where
  "load_startup_report_from_disk s =
     (case disk s of
        Absent \<Rightarrow> []
      | Unreadable \<Rightarrow> []
      | Payload payload \<Rightarrow> (case payload of JDict d \<Rightarrow> d | _ \<Rightarrow> []))"

definition get_last_startup_report :: "state \<Rightarrow> dict" where
  "get_last_startup_report s =
     (if last_startup_report s \<noteq> [] then last_startup_report s
      else load_startup_report_from_disk s)"

section \<open>Binary discovery\<close>

definition get_bundled_ollama_dir :: "host \<Rightarrow> path option" where
  "get_bundled_ollama_dir h =
     (if frozen h \<and> path_exists h (joinp (meipass h) ''ollama'')
        then Some (joinp (meipass h) ''ollama'')
      else if frozen h \<and> path_exists h (joinp (exe_dir h) ''ollama'')
        then Some (joinp (exe_dir h) ''ollama'')
      else let dev_ollama_dir = joinp (package_dir h) ''bin''
           in if path_exists h dev_ollama_dir \<and> path_exists h (joinp dev_ollama_dir ''ollama'')
              then Some dev_ollama_dir
              else None)"

definition is_space :: "char \<Rightarrow> bool" where
  "is_space c = (c \<in> set [CHR '' '', CHR 0x09, CHR 0x0A, CHR 0x0B, CHR 0x0C, CHR 0x0D])"

definition strip :: "string \<Rightarrow> string" where
  "strip s = rev (dropWhile is_space (rev (dropWhile is_space s)))"

text \<open>The \<open>PATH\<close> lookup: the path printed by \<open>which ollama\<close> when it exits with 0.\<close>

definition which_candidates :: "host \<Rightarrow> path list" where
  "which_candidates h =
     (case which_run h of
        Completed returncode out err \<Rightarrow> (if returncode = 0 then [Path (strip out)] else [])
      | TimeoutExpired \<Rightarrow> []
      | RunFailed msg \<Rightarrow> [])"

definition system_locations :: "path list" where
  "system_locations =
     [''/opt/homebrew/bin/ollama'', ''/usr/local/bin/ollama'', ''/usr/bin/ollama'']"

text \<open>The deduplication loop: \<open>seen\<close> holds the strings met so far, \<open>deduped\<close> grows at
  its end. The test \<open>if not candidate\<close> never fires, a \<open>Path\<close> being always true.\<close>

fun dedupe :: "host \<Rightarrow> path list \<Rightarrow> string list \<Rightarrow> path list \<Rightarrow> path list" where
  "dedupe h [] seen deduped = deduped"
| "dedupe h (candidate # candidates) seen deduped =
     (if candidate \<in> set seen then dedupe h candidates seen deduped
      else dedupe h candidates (candidate # seen)
             (if path_exists h candidate \<and> access_x h candidate
              then deduped @ [candidate] else deduped))"

definition getenv :: "host \<Rightarrow> string \<Rightarrow> string option" where
  "getenv h name = map_of (environ h) name"

definition override_set :: "host \<Rightarrow> bool" where
  "override_set h =
     (case getenv h ''OPENSCRIBE_OLLAMA_BINARY'' of None \<Rightarrow> False | Some v \<Rightarrow> v \<noteq> [])"

text \<open>The candidates after the override: the bundled binary and its fallback slot, the
  \<open>PATH\<close> lookup, the common system locations.\<close>

definition discovered_candidates :: "host \<Rightarrow> path list" where
  "discovered_candidates h =
     (case get_bundled_ollama_dir h of
        None \<Rightarrow> []
      | Some bundled_dir \<Rightarrow> [joinp bundled_dir ''ollama'', joinp bundled_dir ''ollama-fallback''])
     @ which_candidates h
     @ system_locations"

definition raw_candidates :: "host \<Rightarrow> path list" where
  "raw_candidates h =
     (case getenv h ''OPENSCRIBE_OLLAMA_BINARY'' of
        None \<Rightarrow> []
      | Some override_binary \<Rightarrow> (if override_binary \<noteq> [] then [Path override_binary] else []))
     @ discovered_candidates h"

definition prefer_system :: "host \<Rightarrow> bool" where
  "prefer_system h =
     (case getenv h ''OPENSCRIBE_PREFER_SYSTEM_OLLAMA'' of
        None \<Rightarrow> True
      | Some v \<Rightarrow> lower v \<in> set [''1'', ''true'', ''yes'', ''on''])"

definition is_system_path :: "host \<Rightarrow> path \<Rightarrow> bool" where
  "is_system_path h p =
     (case get_bundled_ollama_dir h of
        None \<Rightarrow> True
      | Some bundled_dir \<Rightarrow> \<not> prefix bundled_dir p)"

text \<open>The path to move to the front: the in-memory selection while it exists on disk,
  else a non-empty string under \<open>selected_binary\<close> in the report file.\<close>

definition preferred_binary :: "host \<Rightarrow> state \<Rightarrow> string option" where
  "preferred_binary h s =
     (case selected_ollama_binary s of
        Some sel \<Rightarrow>
          (if path_exists h sel then Some sel
           else (case map_of (load_startup_report_from_disk s) ''selected_binary'' of
                   Some (JStr selected_from_report) \<Rightarrow>
                     (if selected_from_report \<noteq> [] then Some selected_from_report else None)
                 | _ \<Rightarrow> None))
      | None \<Rightarrow>
          (case map_of (load_startup_report_from_disk s) ''selected_binary'' of
             Some (JStr selected_from_report) \<Rightarrow>
               (if selected_from_report \<noteq> [] then Some selected_from_report else None)
           | _ \<Rightarrow> None))"

definition get_ollama_binary_candidates :: "host \<Rightarrow> state \<Rightarrow> path list" where
  "get_ollama_binary_candidates h s =
     (let deduped = dedupe h (raw_candidates h) [] []
      in if override_set h then deduped
         else
           let deduped2 =
                 (if prefer_system h \<and> deduped \<noteq> []
                  then filter (is_system_path h) deduped
                       @ filter (\<lambda>p. \<not> is_system_path h p) deduped
                  else deduped)
           in (case preferred_binary h s of
                 None \<Rightarrow> deduped2
               | Some preferred \<Rightarrow>
                   (if preferred \<noteq> [] \<and> preferred \<in> set deduped2
                    then preferred # remove1 preferred deduped2
                    else deduped2)))"


section \<open>Health checks\<close>

definition OLLAMA_HEALTH_URL :: string where
  "OLLAMA_HEALTH_URL = ''http://127.0.0.1:11434/api/tags''"

definition OLLAMA_VERSION_URL :: string where
  "OLLAMA_VERSION_URL = ''http://127.0.0.1:11434/api/version''"

definition OLLAMA_PROBE_TIMEOUT_S :: nat where
  "OLLAMA_PROBE_TIMEOUT_S = 3"

text \<open>
  \<open>_http_get_ok(url, timeout)\<close>, the timeout in milliseconds: \<open>urlopen\<close> answers with
  a status or raises; every exception is caught and gives \<open>False\<close>.
\<close>

definition http_get_ok :: "host \<Rightarrow> string \<Rightarrow> nat \<Rightarrow> state \<Rightarrow> bool \<times> state" where
  "http_get_ok h url timeout s =
     (let ok = (case urlopen h (tick s) url timeout of
                  Inl exc \<Rightarrow> False
                | Inr status \<Rightarrow> 200 \<le> status \<and> status < 300)
      in (ok, log (HttpGet url timeout ok) (env_call h s)))"

definition is_ollama_running :: "host \<Rightarrow> state \<Rightarrow> bool \<times> state" where
  "is_ollama_running h s =
     (case http_get_ok h OLLAMA_VERSION_URL 1500 s of
        (ok, s1) \<Rightarrow> if ok then (True, s1) else http_get_ok h OLLAMA_HEALTH_URL 1500 s1)"

section \<open>Probing a candidate\<close>

definition get_ollama_env :: "host \<Rightarrow> path option \<Rightarrow> (string \<times> string) list" where
  "get_ollama_env h binary =
     (let env = environ h;
          bundled_dir = get_bundled_ollama_dir h;
          use_bundled_libs =
            (case bundled_dir of
               None \<Rightarrow> False
             | Some b \<Rightarrow>
                 (case binary of
                    None \<Rightarrow> False
                  | Some bin \<Rightarrow>
                      (case resolve h bin of
                         None \<Rightarrow> prefix b bin
                       | Some rbin \<Rightarrow>
                           (case resolve h b of
                              None \<Rightarrow> prefix b bin
                            | Some rb \<Rightarrow> prefix rb rbin))));
          env2 =
            (case bundled_dir of
               None \<Rightarrow> env
             | Some b \<Rightarrow>
                 if use_bundled_libs
                 then AList.update ''MLX_METAL_PATH'' (joinp b ''mlx.metallib'')
                        (AList.update ''DYLD_LIBRARY_PATH''
                           (case map_of env ''DYLD_LIBRARY_PATH'' of
                              None \<Rightarrow> b
                            | Some existing \<Rightarrow>
                                if existing \<noteq> [] then b @ '':'' @ existing else b)
                           env)
                 else env)
      in (case map_of env2 ''OLLAMA_HOST'' of
            None \<Rightarrow> AList.update ''OLLAMA_HOST'' ''127.0.0.1:11434'' env2
          | Some v \<Rightarrow> env2))"

fun str_nat :: "nat \<Rightarrow> string" where
  "str_nat n =
     (if n < 10 then [''0123456789'' ! n]
      else str_nat (n div 10) @ [''0123456789'' ! (n mod 10)])"

text \<open>The truth value Python gives to \<open>d.get(k)\<close>.\<close>

fun truthy :: "json option \<Rightarrow> bool" where
  "truthy None = False"
| "truthy (Some JNull) = False"
| "truthy (Some (JBool b)) = b"
| "truthy (Some (JInt i)) = (i \<noteq> 0)"
| "truthy (Some (JSecs n)) = (n \<noteq> 0)"
| "truthy (Some (JStr t)) = (t \<noteq> [])"
| "truthy (Some (JList xs)) = (xs \<noteq> [])"
| "truthy (Some (JDict d)) = (d \<noteq> [])"

definition probe_ollama_binary :: "host \<Rightarrow> path \<Rightarrow> nat \<Rightarrow> state \<Rightarrow> dict \<times> state" where
  "probe_ollama_binary h binary timeout s =
     (let env = get_ollama_env h (Some binary);
          start = now s;
          outcome = subprocess_run h (tick s) [binary, ''--version''] env;
          s1 = log (Probe binary) (env_call h s)
      in (case outcome of
            Completed returncode out err \<Rightarrow>
              (let stderr_tail = tail err 4000
               in [(''binary'', JStr binary),
                   (''ok'', JBool (returncode = 0)),
                   (''returncode'', JInt returncode),
                   (''duration_s'', JSecs (now s1 - start)),
                   (''stdout'', JStr (tail out 500)),
                   (''stderr_tail'', JStr stderr_tail),
                   (''mlx_crash'', JBool (is_mlx_crash (Some stderr_tail)))])
          | TimeoutExpired \<Rightarrow>
              [(''binary'', JStr binary),
               (''ok'', JBool False),
               (''returncode'', JNull),
               (''duration_s'', JSecs (now s1 - start)),
               (''stdout'', JStr []),
               (''stderr_tail'', JStr (''Probe timed out after '' @ str_nat timeout @ ''s'')),
               (''mlx_crash'', JBool False)]
          | RunFailed msg \<Rightarrow>
              [(''binary'', JStr binary),
               (''ok'', JBool False),
               (''returncode'', JNull),
               (''duration_s'', JSecs (now s1 - start)),
               (''stdout'', JStr []),
               (''stderr_tail'', JStr msg),
               (''mlx_crash'', JBool False)],
          s1))"

section \<open>The startup lock\<close>

text \<open>
  The acquisition loop of \<open>_with_startup_lock\<close>: a non-blocking attempt every 100 ms
  until \<open>timeout_ms\<close> has passed since \<open>start\<close>. The result says whether the lock was
  acquired.
\<close>

function acquire_startup_lock :: "host \<Rightarrow> nat \<Rightarrow> int \<Rightarrow> state \<Rightarrow> bool \<times> state" where
  "acquire_startup_lock h start timeout_ms s =
     (if int (now s) - int start < timeout_ms
      then (if lock_free h (tick s)
            then (True, log (LockTry True) ((env_call h s)\<lparr>lock_held := True\<rparr>))
            else acquire_startup_lock h start timeout_ms
                   (sleep h 100 (log (LockTry False) (env_call h s))))
      else (False, s))"
  by pat_completeness auto
termination
  by (relation "measure (\<lambda>(h, start, timeout_ms, s). nat (int start + timeout_ms - int (now s)))")
     (auto simp: sleep_def log_def env_call_def)

definition release_startup_lock :: "state \<Rightarrow> state" where
  "release_startup_lock s = log LockRelease (s\<lparr>lock_held := False\<rparr>)"

section \<open>Starting the server\<close>

definition timestamp :: "state \<Rightarrow> json" where
  "timestamp s = JInt (int (now s div 1000))"

definition select_binary :: "path \<Rightarrow> state \<Rightarrow> state" where
  "select_binary candidate s =
     log (SetSelected candidate) (s\<lparr>selected_ollama_binary := Some candidate\<rparr>)"

text \<open>\<open>started_proc.poll()\<close>: a return code, once seen, is kept.\<close>

definition poll :: "host \<Rightarrow> state \<Rightarrow> int option \<times> state" where
  "poll h s =
     (case proc_returncode s of
        Some rc \<Rightarrow> (Some rc, s)
      | None \<Rightarrow>
          (let r = proc_exit h (tick s)
           in (r, log (Poll r) ((env_call h s)\<lparr>proc_returncode := r\<rparr>))))"

text \<open>The stderr read after an early exit: \<open>communicate(timeout=0.2)\<close> under its
  \<open>try\<close>.\<close>

definition read_stderr :: "host \<Rightarrow> state \<Rightarrow> string \<times> state" where
  "read_stderr h s =
     ((case communicate h (tick s) of
         Inl exc \<Rightarrow> []
       | Inr proc_stderr \<Rightarrow> tail (case proc_stderr of None \<Rightarrow> [] | Some t \<Rightarrow> t) 4000),
      log Communicate (env_call h s))"

text \<open>\<open>terminate()\<close> and \<open>wait(timeout=2)\<close>; when they raise, \<open>kill()\<close>.\<close>

definition terminate_proc :: "host \<Rightarrow> state \<Rightarrow> state" where
  "terminate_proc h s =
     (if terminate_wait h (tick s) then log Terminate (env_call h s)
      else log Kill (env_call h (log Terminate (env_call h s))))"

text \<open>
  The readiness loop for one spawned candidate. \<open>None\<close>: the server answered, the
  selection and the report are written and the function returns \<open>True\<close>. \<open>Some attempt\<close>:
  the loop was left, by \<open>break\<close> after an early exit or because the timeout passed, with
  the attempt record as it then is. \<open>attempts\<close> are the records of the earlier candidates;
  the list the source holds also has the current record as its last element.
\<close>

function wait_ready ::
  "host \<Rightarrow> path \<Rightarrow> int \<Rightarrow> nat \<Rightarrow> json list \<Rightarrow> dict \<Rightarrow> state \<Rightarrow> dict option \<times> state" where
  "wait_ready h candidate timeout start_time attempts attempt s =
     (if int (now s) - int start_time < timeout * 1000
      then (case is_ollama_running h s of
              (running, s1) \<Rightarrow>
                if running
                then (None,
                      set_startup_report h
                        [(''success'', JBool True),
                         (''waited'', JBool True),
                         (''selected_binary'', JStr candidate),
                         (''ready_after_s'', JSecs (now s1 - start_time)),
                         (''attempts'', JList (attempts @ [JDict attempt])),
                         (''timestamp'', timestamp s1)]
                        (select_binary candidate s1))
                else (case poll h s1 of
                        (Some rc, s2) \<Rightarrow>
                          (case read_stderr h s2 of
                             (stderr_text, s3) \<Rightarrow>
                               (Some (AList.update ''mlx_crash''
                                        (JBool (is_mlx_crash (Some stderr_text)))
                                        (AList.update ''stderr_tail'' (JStr stderr_text)
                                           (AList.update ''returncode'' (JInt rc) attempt))),
                                s3))
                      | (None, s2) \<Rightarrow>
                          wait_ready h candidate timeout start_time attempts attempt
                            (sleep h 500 s2)))
      else (Some attempt, s))"
  by pat_completeness auto
termination
  apply (relation "measure (\<lambda>(h, candidate, timeout, start_time, attempts, attempt, s).
                   nat (int start_time + timeout * 1000 - int (now s)))")
   apply simp
  apply (auto simp: sleep_def log_def env_call_def is_ollama_running_def http_get_ok_def
      poll_def Let_def split: if_splits option.splits)
  done

text \<open>After the loop: a process that still runs is marked as timed out and stopped.\<close>

definition stop_candidate :: "host \<Rightarrow> dict \<Rightarrow> state \<Rightarrow> dict \<times> state" where
  "stop_candidate h attempt s =
     (case poll h s of
        (None, s1) \<Rightarrow> (AList.update ''timeout'' (JBool True) attempt, terminate_proc h s1)
      | (Some rc, s1) \<Rightarrow> (attempt, s1))"

text \<open>
  How the loop over the candidates is left: by \<open>return\<close>, by an exception, or at its end.
  The list beside it is the local \<open>attempts\<close> at that moment.
\<close>

datatype loop_exit = Returned bool | Raised exn | Exhausted

fun try_candidates ::
  "host \<Rightarrow> bool \<Rightarrow> int \<Rightarrow> path list \<Rightarrow> json list \<Rightarrow> state \<Rightarrow> (loop_exit \<times> json list) \<times> state" where
  "try_candidates h wait timeout [] attempts s = ((Exhausted, attempts), s)"
| "try_candidates h wait timeout (candidate # rest) attempts s =
     (case probe_ollama_binary h candidate OLLAMA_PROBE_TIMEOUT_S s of
        (probe, s1) \<Rightarrow>
          (let attempt = [(''binary'', JStr candidate), (''probe'', JDict probe)]
           in if \<not> truthy (map_of probe ''ok'')
              then try_candidates h wait timeout rest (attempts @ [JDict attempt]) s1
              else (case popen h (tick s1) [candidate, ''serve'']
                           (get_ollama_env h (Some candidate)) of
                      Inl exc \<Rightarrow>
                        ((Raised exc, attempts @ [JDict attempt]),
                         log (Popen candidate (Inl exc)) (env_call h s1))
                    | Inr pid \<Rightarrow>
                        (let s2 = log (Popen candidate (Inr pid))
                                    ((env_call h s1)\<lparr>proc_returncode := None\<rparr>);
                             attempt2 = AList.update ''pid'' (JInt (int pid)) attempt
                         in if \<not> wait
                            then ((Returned True, attempts @ [JDict attempt2]),
                                  set_startup_report h
                                    [(''success'', JBool True),
                                     (''waited'', JBool False),
                                     (''selected_binary'', JStr candidate),
                                     (''attempts'', JList (attempts @ [JDict attempt2])),
                                     (''timestamp'', timestamp s2)]
                                    (select_binary candidate s2))
                            else (case wait_ready h candidate timeout (now s2) attempts
                                         attempt2 s2 of
                                    (None, s3) \<Rightarrow>
                                      ((Returned True, attempts @ [JDict attempt2]), s3)
                                  | (Some attempt3, s3) \<Rightarrow>
                                      (case stop_candidate h attempt3 s3 of
                                         (attempt4, s4) \<Rightarrow>
                                           try_candidates h wait timeout rest
                                             (attempts @ [JDict attempt4]) s4))))))"

text \<open>
  The body of the \<open>try\<close> statement: the lock is taken with a timeout of 20 s, health is
  checked again, the candidates are tried, and the lock is released on every way out of
  the \<open>with\<close> block. A lock that cannot be taken raises \<open>TimeoutError\<close> before the block
  is entered.
\<close>

definition locked_section ::
  "host \<Rightarrow> bool \<Rightarrow> int \<Rightarrow> path list \<Rightarrow> state \<Rightarrow> ((exn + bool) \<times> json list) \<times> state" where
  "locked_section h wait timeout candidates s =
     (case is_ollama_running h s of
        (running, s1) \<Rightarrow>
          if running
          then ((Inr True, []),
                set_startup_report h
                  [(''success'', JBool True),
                   (''already_running'', JBool True),
                   (''timestamp'', timestamp s1)] s1)
          else (case try_candidates h wait timeout candidates [] s1 of
                  ((Returned b, attempts), s2) \<Rightarrow> ((Inr b, attempts), s2)
                | ((Raised exc, attempts), s2) \<Rightarrow> ((Inl exc, attempts), s2)
                | ((Exhausted, attempts), s2) \<Rightarrow>
                    ((Inr False, attempts),
                     set_startup_report h
                       [(''success'', JBool False),
                        (''error'', JStr ''startup_failed''),
                        (''attempts'', JList attempts),
                        (''timestamp'', timestamp s2)] s2)))"

definition try_block ::
  "host \<Rightarrow> bool \<Rightarrow> int \<Rightarrow> path list \<Rightarrow> state \<Rightarrow> ((exn + bool) \<times> json list) \<times> state" where
  "try_block h wait timeout candidates s =
     (case acquire_startup_lock h (now s) (20 * 1000) s of
        (acquired, s1) \<Rightarrow>
          if \<not> acquired
          then ((Inl (TimeoutError ''Timed out acquiring Ollama startup lock''), []), s1)
          else (case locked_section h wait timeout candidates s1 of
                  (r, s2) \<Rightarrow> (r, release_startup_lock s2)))"

text \<open>
  \<open>start_ollama_server(wait, timeout)\<close>. The result is \<open>Inr\<close> of the returned boolean, or
  \<open>Inl\<close> of an exception that leaves the function.
\<close>

definition start_ollama_server :: "host \<Rightarrow> bool \<Rightarrow> int \<Rightarrow> state \<Rightarrow> (exn + bool) \<times> state" where
  "start_ollama_server h wait timeout s =
     (case is_ollama_running h s of
        (running, s1) \<Rightarrow>
          if running
          then (Inr True,
                set_startup_report h
                  [(''success'', JBool True),
                   (''already_running'', JBool True),
                   (''timestamp'', timestamp s1)] s1)
          else (case get_ollama_binary_candidates h s1 of
                  [] \<Rightarrow>
                    (Inr False,
                     set_startup_report h
                       [(''success'', JBool False),
                        (''error'', JStr ''binary_not_found''),
                        (''timestamp'', timestamp s1)] s1)
                | candidate # rest \<Rightarrow>
                    (case try_block h wait timeout (candidate # rest) s1 of
                       ((Inr b, attempts), s2) \<Rightarrow> (Inr b, s2)
                     | ((Inl exc, attempts), s2) \<Rightarrow>
                         (Inr False,
                          set_startup_report h
                            [(''success'', JBool False),
                             (''error'', JStr (exn_str exc)),
                             (''attempts'', JList attempts),
                             (''timestamp'', timestamp s2)] s2))))"

section \<open>Vocabulary of the properties and example hosts\<close>

text \<open>A path that exists and may be executed.\<close>

definition usable :: "host \<Rightarrow> path \<Rightarrow> bool" where
  "usable h p = (path_exists h p \<and> access_x h p)"

text \<open>A list without its repetitions, each element at its first position.\<close>

definition first_occurrences :: "'a list \<Rightarrow> 'a list" where
  "first_occurrences xs = rev (remdups (rev xs))"

text \<open>A development checkout with nothing installed: no bundled directory, no \<open>ollama\<close>
  on the \<open>PATH\<close>, no server answering, the lock free, every outside call immediate.\<close>

definition host0 :: host where
  "host0 = \<lparr>environ = [], frozen = False, meipass = ''/m'', exe_dir = ''/e'',
     package_dir = ''/app'', which_run = RunFailed ''no which'',
     path_exists = (\<lambda>p. False), access_x = (\<lambda>p. False), resolve = (\<lambda>p. Some p),
     persist_ok = True, latency = (\<lambda>t. 0), urlopen = (\<lambda>t u n. Inl (OSError ''refused'')),
     lock_free = (\<lambda>t. True), subprocess_run = (\<lambda>t a e. RunFailed ''enoent''),
     popen = (\<lambda>t a e. Inl (OSError ''enoent'')), proc_exit = (\<lambda>t. None),
     communicate = (\<lambda>t. Inr None), terminate_wait = (\<lambda>t. True)\<rparr>"

text \<open>A fresh process.\<close>

definition state0 :: state where
  "state0 = \<lparr>now = 0, tick = 0, selected_ollama_binary = None, last_startup_report = [],
     disk = Absent, lock_held = False, proc_returncode = None, trace = []\<rparr>"


text \<open>\<open>/usr/local/bin/ollama\<close> is a symlink to \<open>/opt/homebrew/bin/ollama\<close>.\<close>

definition host_symlink :: host where
  "host_symlink = host0\<lparr>
     path_exists := (\<lambda>p. p \<in> set [''/opt/homebrew/bin/ollama'', ''/usr/local/bin/ollama'']),
     access_x := (\<lambda>p. True),
     resolve := (\<lambda>p. if p = ''/usr/local/bin/ollama''
                      then Some ''/opt/homebrew/bin/ollama'' else Some p)\<rparr>"

text \<open>A bundled binary under \<open>/app/bin\<close> beside a system binary.\<close>

definition host_bundled :: host where
  "host_bundled = host0\<lparr>
     path_exists := (\<lambda>p. p \<in> set [''/app/bin'', ''/app/bin/ollama'', ''/usr/bin/ollama'']),
     access_x := (\<lambda>p. True)\<rparr>"

text \<open>A host with \<open>/usr/bin/ollama\<close> installed, no server answering, and the startup lock
  held by another caller for as long as anyone tries.\<close>

definition host_locked :: host where
  "host_locked = host0\<lparr>
     path_exists := (\<lambda>p. p = ''/usr/bin/ollama''),
     access_x := (\<lambda>p. True),
     lock_free := (\<lambda>t. False)\<rparr>"

text \<open>Nothing installed, and the lock held by another caller.\<close>

definition host_missing_locked :: host where
  "host_missing_locked = host0\<lparr>lock_free := (\<lambda>t. False)\<rparr>"

text \<open>\<open>/usr/bin/ollama\<close> installed, its probe succeeds and it can be spawned, but no
  health check ever succeeds.\<close>

definition host_installed :: host where
  "host_installed = host0\<lparr>
     path_exists := (\<lambda>p. p = ''/usr/bin/ollama''),
     access_x := (\<lambda>p. True),
     subprocess_run := (\<lambda>t a e. Completed 0 ''0.15.4'' []),
     popen := (\<lambda>t a e. Inr 4242)\<rparr>"

text \<open>As before, and the server answers from the eighth outside call on (tick 7), which
  is the first health check after the spawn.\<close>

definition host_ready :: host where
  "host_ready = host_installed\<lparr>
     urlopen := (\<lambda>t u n. if 7 \<le> t then Inr 200 else Inl (OSError ''refused''))\<rparr>"

text \<open>The probe succeeds but the spawn raises.\<close>

definition host_spawn_fails :: host where
  "host_spawn_fails = host_installed\<lparr>popen := (\<lambda>t a e. Inl (OSError ''Exec format error''))\<rparr>"

text \<open>Whether an answer of \<open>urlopen\<close> is a response with a 2xx status.\<close>

fun success_2xx :: "exn + int \<Rightarrow> bool" where
  "success_2xx (Inl exc) = False"
| "success_2xx (Inr status) = (200 \<le> status \<and> status < 300)"

text \<open>Events that write neither the selection nor the report.\<close>

fun inert_event :: "event \<Rightarrow> bool" where
  "inert_event (SetSelected p) = False"
| "inert_event (SetReport r) = False"
| "inert_event e = True"

text \<open>From \<open>s\<close> to \<open>s'\<close> only inert events happened and the globals are unchanged.\<close>

definition inert_run :: "state \<Rightarrow> state \<Rightarrow> bool" where
  "inert_run s s' \<longleftrightarrow>
     (\<exists>evs. trace s' = trace s @ evs \<and> list_all inert_event evs)
     \<and> selected_ollama_binary s' = selected_ollama_binary s
     \<and> last_startup_report s' = last_startup_report s
     \<and> disk s' = disk s"







section \<open>Properties of the crash classifier\<close>

lemma contains_sublist: "contains t m = sublist m t"
  by (induction t) (auto simp: sublist_Cons_right)

text \<open>
  C9: the crash classifier returns true exactly when the lowercased stderr text has one
  of the fixed crash markers as a substring (so it is false for a text with none of
  them), and a missing or an empty stderr is classified as no crash, without an error.
\<close>

theorem is_mlx_crash_iff_marker:
  "is_mlx_crash stderr =
     (\<exists>marker \<in> set crash_markers.
        sublist marker (lower (case stderr of None \<Rightarrow> [] | Some s \<Rightarrow> s)))
   \<and> \<not> is_mlx_crash None
   \<and> \<not> is_mlx_crash (Some [])"
  by (simp add: is_mlx_crash_def Let_def list_ex_iff contains_sublist lower_def crash_markers_def)

theorem is_mlx_crash_witness:
  "is_mlx_crash (Some ''abort in LibMLX'')
   \<and> (\<exists>marker \<in> set crash_markers.
        sublist marker
          (lower ''abort in LibMLX''))
   \<and> \<not> is_mlx_crash (Some ''startup warning'')
   \<and> \<not> (\<exists>marker \<in> set crash_markers. sublist marker (lower ''startup warning''))"
proof -
  have pos: "is_mlx_crash
      (Some ''abort in LibMLX'')"
    by (simp add: is_mlx_crash_def lower_def lower_char_def crash_markers_def)
  have neg: "\<not> is_mlx_crash (Some ''startup warning'')"
    by (simp add: is_mlx_crash_def lower_def lower_char_def crash_markers_def)
  show ?thesis
    using pos neg
      is_mlx_crash_iff_marker
        [of "Some ''abort in LibMLX''"]
      is_mlx_crash_iff_marker [of "Some ''startup warning''"]
    by simp
qed

section \<open>Properties of binary discovery\<close>

lemma remdups_snoc: "remdups (ys @ [x]) = filter (\<lambda>y. y \<noteq> x) (remdups ys) @ [x]"
  by (induction ys) auto

lemma first_occurrences_Cons:
  "first_occurrences (x # xs) = x # filter (\<lambda>y. y \<noteq> x) (first_occurrences xs)"
  by (simp add: first_occurrences_def remdups_snoc rev_filter)

lemma distinct_first_occurrences: "distinct (first_occurrences xs)"
  by (simp add: first_occurrences_def)

lemma set_first_occurrences: "set (first_occurrences xs) = set xs"
  by (simp add: first_occurrences_def)

lemma dedupe_eq:
  "dedupe h cs seen acc =
     acc @ filter (usable h) (filter (\<lambda>p. p \<notin> set seen) (first_occurrences cs))"
proof (induction cs arbitrary: seen acc)
  case Nil
  then show ?case by (simp add: first_occurrences_def)
next
  case (Cons c cs)
  show ?case
  proof (cases "c \<in> set seen")
    case True
    then have "filter (\<lambda>p. p \<notin> set seen) (filter (\<lambda>y. y \<noteq> c) (first_occurrences cs))
        = filter (\<lambda>p. p \<notin> set seen) (first_occurrences cs)"
      by (auto intro: filter_cong)
    with True Cons show ?thesis
      by (simp add: first_occurrences_Cons)
  next
    case False
    have "filter (\<lambda>p. p \<notin> set (c # seen)) (first_occurrences cs)
        = filter (\<lambda>p. p \<notin> set seen) (filter (\<lambda>y. y \<noteq> c) (first_occurrences cs))"
      by (auto intro: filter_cong)
    with False Cons show ?thesis
      by (simp add: first_occurrences_Cons usable_def)
  qed
qed

lemma set_dedupe: "set (dedupe h cs [] []) = {p \<in> set cs. usable h p}"
  by (auto simp: dedupe_eq set_first_occurrences)

lemma distinct_dedupe: "distinct (dedupe h cs [] [])"
  by (simp add: dedupe_eq distinct_first_occurrences)

lemma distinct_partition: "distinct xs \<Longrightarrow> distinct (filter P xs @ filter (\<lambda>x. \<not> P x) xs)"
  by auto

lemma distinct_move_front: "distinct xs \<Longrightarrow> x \<in> set xs \<Longrightarrow> distinct (x # remove1 x xs)"
  by simp




text \<open>
  C6 (as amended): the returned list never holds the same path string twice.
  Deduplication is by the string of the path, not by the resolved path.
\<close>

theorem candidates_distinct_strings:
  "distinct (get_ollama_binary_candidates h s)"
proof -
  define d where "d = dedupe h (raw_candidates h) [] []"
  define d2 where "d2 = (if prefer_system h \<and> d \<noteq> []
             then filter (is_system_path h) d @ filter (\<lambda>p. \<not> is_system_path h p) d
             else d)"
  have d: "distinct d"
    unfolding d_def by (rule distinct_dedupe)
  have d2: "distinct d2"
    unfolding d2_def using d distinct_partition [of d "is_system_path h"] by presburger
  have front: "distinct (x # remove1 x d2)" if "x \<in> set d2" for x
    using d2 that by (rule distinct_move_front)
  have "get_ollama_binary_candidates h s =
      (if override_set h then d
       else case preferred_binary h s of
              None \<Rightarrow> d2
            | Some preferred \<Rightarrow>
                if preferred \<noteq> [] \<and> preferred \<in> set d2
                then preferred # remove1 preferred d2 else d2)"
    by (simp only: get_ollama_binary_candidates_def Let_def d_def d2_def)
  then show ?thesis
    using d d2 front by (auto split: option.split)
qed

text \<open>Two system locations, one a symlink to the other: both are returned although
  they resolve to the same file.\<close>

theorem canonical_duplicates_counterexample:
  "get_ollama_binary_candidates host_symlink state0
     = [''/opt/homebrew/bin/ollama'', ''/usr/local/bin/ollama'']
   \<and> resolve host_symlink ''/opt/homebrew/bin/ollama''
     = resolve host_symlink ''/usr/local/bin/ollama''
   \<and> \<not> distinct (map (resolve host_symlink) (get_ollama_binary_candidates host_symlink state0))"
  by (simp add: get_ollama_binary_candidates_def host_symlink_def host0_def state0_def
      override_set_def getenv_def raw_candidates_def discovered_candidates_def
      get_bundled_ollama_dir_def joinp_def Path_def which_candidates_def system_locations_def
      prefer_system_def is_system_path_def preferred_binary_def load_startup_report_from_disk_def)

lemma set_partition: "set (filter P xs @ filter (\<lambda>x. \<not> P x) xs) = set xs"
  by auto

text \<open>
  C7: without an override, a previously successful binary (the in-memory selection, or
  with none in memory the \<open>selected_binary\<close> string of the persisted report) that
  occurs in the deduplicated list is at position 0 of the result, whatever the
  system-versus-bundled preference. The string of a path is never empty.
\<close>

theorem previously_successful_first:
  assumes no_override: "\<not> override_set h"
    and known: "selected_ollama_binary s = Some p
       \<or> (selected_ollama_binary s = None
          \<and> map_of (load_startup_report_from_disk s) ''selected_binary'' = Some (JStr p))"
    and nonempty: "p \<noteq> []"
    and listed: "p \<in> set (dedupe h (raw_candidates h) [] [])"
  shows "get_ollama_binary_candidates h s \<noteq> []
     \<and> get_ollama_binary_candidates h s ! 0 = p"
proof -
  let ?d = "dedupe h (raw_candidates h) [] []"
  let ?d2 = "if prefer_system h \<and> ?d \<noteq> []
             then filter (is_system_path h) ?d @ filter (\<lambda>p. \<not> is_system_path h p) ?d
             else ?d"
  have ex: "path_exists h p"
    using listed by (simp add: set_dedupe usable_def)
  have pref: "preferred_binary h s = Some p"
    using known ex nonempty by (auto simp: preferred_binary_def)
  have "set ?d2 = set ?d"
    by (simp add: set_partition del: set_append)
  then have in2: "p \<in> set ?d2"
    using listed by simp
  have "get_ollama_binary_candidates h s = p # remove1 p ?d2"
    using no_override pref in2 nonempty
    by (simp add: get_ollama_binary_candidates_def Let_def)
  then show ?thesis by simp
qed

theorem previously_successful_first_witness:
  "\<not> override_set host_bundled
   \<and> selected_ollama_binary (state0\<lparr>selected_ollama_binary := Some ''/app/bin/ollama''\<rparr>)
       = Some ''/app/bin/ollama''
   \<and> ''/app/bin/ollama'' \<in> set (dedupe host_bundled (raw_candidates host_bundled) [] [])
   \<and> get_ollama_binary_candidates host_bundled state0 ! 0 = ''/usr/bin/ollama''
   \<and> get_ollama_binary_candidates host_bundled
        (state0\<lparr>selected_ollama_binary := Some ''/app/bin/ollama''\<rparr>) ! 0 = ''/app/bin/ollama''"
proof -
  have a: "\<not> override_set host_bundled"
    by (simp add: override_set_def getenv_def host_bundled_def host0_def)
  have b: "selected_ollama_binary (state0\<lparr>selected_ollama_binary := Some ''/app/bin/ollama''\<rparr>)
       = Some ''/app/bin/ollama''
     \<or> (selected_ollama_binary (state0\<lparr>selected_ollama_binary := Some ''/app/bin/ollama''\<rparr>) = None
          \<and> map_of (load_startup_report_from_disk
               (state0\<lparr>selected_ollama_binary := Some ''/app/bin/ollama''\<rparr>)) ''selected_binary''
             = Some (JStr ''/app/bin/ollama''))"
    by simp
  have c: "''/app/bin/ollama'' \<noteq> []" by simp
  have d: "''/app/bin/ollama'' \<in> set (dedupe host_bundled (raw_candidates host_bundled) [] [])"
    by (simp add: host_bundled_def host0_def
      getenv_def raw_candidates_def discovered_candidates_def
      get_bundled_ollama_dir_def joinp_def Path_def which_candidates_def system_locations_def)
  have e: "get_ollama_binary_candidates host_bundled state0 ! 0 = ''/usr/bin/ollama''"
    by (simp add: get_ollama_binary_candidates_def host_bundled_def host0_def state0_def
      override_set_def getenv_def raw_candidates_def discovered_candidates_def
      get_bundled_ollama_dir_def joinp_def Path_def which_candidates_def system_locations_def
      prefer_system_def is_system_path_def preferred_binary_def load_startup_report_from_disk_def)
  show ?thesis
    using a d e previously_successful_first [OF a b c d] by simp
qed

section \<open>Runs of the supervisor\<close>



lemma inert_env_call: "inert_run s (env_call h s)"
  by (simp add: inert_run_def env_call_def)

lemma inert_log: "inert_event e \<Longrightarrow> inert_run s (log e s)"
  by (simp add: inert_run_def log_def)


lemma is_ollama_running_eq:
  "is_ollama_running h s =
     (if success_2xx (urlopen h (tick s) OLLAMA_VERSION_URL 1500)
      then (True, log (HttpGet OLLAMA_VERSION_URL 1500 True) (env_call h s))
      else (success_2xx (urlopen h (Suc (tick s)) OLLAMA_HEALTH_URL 1500),
            log (HttpGet OLLAMA_HEALTH_URL 1500
                   (success_2xx (urlopen h (Suc (tick s)) OLLAMA_HEALTH_URL 1500)))
              (env_call h (log (HttpGet OLLAMA_VERSION_URL 1500 False) (env_call h s)))))"
  by (auto simp: is_ollama_running_def http_get_ok_def Let_def log_def env_call_def
      split: sum.splits)

text \<open>
  C8: \<open>is_ollama_running\<close> requests the version endpoint first and the tags endpoint
  only when the first request did not succeed, each with a timeout of 1.5 s. It returns
  true exactly when one of the two requests is answered with a 2xx status; a request that
  raises counts as not answered, and nothing is raised to the caller.
\<close>

theorem is_ollama_running_endpoints:
  "fst (is_ollama_running h s) =
     (success_2xx (urlopen h (tick s) OLLAMA_VERSION_URL 1500)
      \<or> success_2xx (urlopen h (Suc (tick s)) OLLAMA_HEALTH_URL 1500))
   \<and> trace (snd (is_ollama_running h s)) =
       trace s @
       (if success_2xx (urlopen h (tick s) OLLAMA_VERSION_URL 1500)
        then [HttpGet OLLAMA_VERSION_URL 1500 True]
        else [HttpGet OLLAMA_VERSION_URL 1500 False,
              HttpGet OLLAMA_HEALTH_URL 1500
                (success_2xx (urlopen h (Suc (tick s)) OLLAMA_HEALTH_URL 1500))])"
  by (simp add: is_ollama_running_eq log_def env_call_def)

lemma inert_is_ollama_running: "is_ollama_running h s = (r, s') \<Longrightarrow> inert_run s s'"
  by (auto simp: is_ollama_running_eq inert_run_def log_def env_call_def split: if_splits)







declare wait_ready.simps [simp del]
declare acquire_startup_lock.simps [simp del]






















lemma candidates_cong:
  assumes "selected_ollama_binary s1 = selected_ollama_binary s" and "disk s1 = disk s"
  shows "get_ollama_binary_candidates h s1 = get_ollama_binary_candidates h s"
proof -
  have l: "load_startup_report_from_disk s1 = load_startup_report_from_disk s"
    using assms(2) by (simp add: load_startup_report_from_disk_def)
  have p: "preferred_binary h s1 = preferred_binary h s"
    unfolding preferred_binary_def assms(1) l by (rule refl)
  show ?thesis
    unfolding get_ollama_binary_candidates_def p by (rule refl)
qed




section \<open>Outcomes of \<open>start_ollama_server\<close>\<close>

lemmas host_defs = host0_def host_locked_def host_missing_locked_def host_installed_def
  host_ready_def host_spawn_fails_def state0_def

lemmas discovery_defs = get_ollama_binary_candidates_def override_set_def getenv_def
  raw_candidates_def discovered_candidates_def get_bundled_ollama_dir_def joinp_def Path_def
  which_candidates_def system_locations_def prefer_system_def is_system_path_def
  preferred_binary_def load_startup_report_from_disk_def


lemma not_running_run:
  assumes "\<not> fst (is_ollama_running h s)"
  shows "is_ollama_running h s = (False, snd (is_ollama_running h s))"
    and "trace (snd (is_ollama_running h s)) = trace s @
           [HttpGet OLLAMA_VERSION_URL 1500 False, HttpGet OLLAMA_HEALTH_URL 1500 False]"
  using assms by (auto simp: is_ollama_running_eq log_def env_call_def split: if_splits)

lemma acquire_busy:
  assumes "\<forall>i<n. \<not> lock_free h (tick s + 2 * i)"
    and "int start + tm \<le> int (now s) + 100 * int n"
  shows "fst (acquire_startup_lock h start tm s) = False"
  using assms
proof (induction n arbitrary: s)
  case 0
  then show ?case
    by (simp add: acquire_startup_lock.simps [of h start tm s])
next
  case (Suc n)
  show ?case
  proof (cases "int (now s) - int start < tm")
    case False
    then show ?thesis
      by (simp add: acquire_startup_lock.simps [of h start tm s])
  next
    case True
    let ?s1 = "sleep h 100 (log (LockTry False) (env_call h s))"
    have busy: "\<not> lock_free h (tick s)"
      using Suc.prems(1) by (metis add.right_neutral mult_zero_right zero_less_Suc)
    have t: "tick ?s1 = tick s + 2" and n: "now s + 100 \<le> now ?s1"
      by (simp_all add: sleep_def log_def env_call_def)
    have "\<forall>i<n. \<not> lock_free h (tick ?s1 + 2 * i)"
    proof (intro allI impI)
      fix i assume "i < n"
      then have "\<not> lock_free h (tick s + 2 * Suc i)"
        using Suc.prems(1) by (meson Suc_less_eq)
      then show "\<not> lock_free h (tick ?s1 + 2 * i)"
        using t by simp
    qed
    moreover have "int start + tm \<le> int (now ?s1) + 100 * int n"
      using Suc.prems(2) n by simp
    ultimately have "fst (acquire_startup_lock h start tm ?s1) = False"
      by (rule Suc.IH)
    then show ?thesis
      using True busy by (simp add: acquire_startup_lock.simps [of h start tm s])
  qed
qed

lemma lock_timeout_result:
  assumes "\<not> fst (is_ollama_running h s)"
    and "get_ollama_binary_candidates h s \<noteq> []"
    and "\<forall>i<200. \<not> lock_free h (tick s + 2 + 2 * i)"
  shows "fst (start_ollama_server h wait timeout s) = Inr False
     \<and> map_of (last_startup_report (snd (start_ollama_server h wait timeout s))) ''error''
         = Some (JStr ''Timed out acquiring Ollama startup lock'')
     \<and> map_of (last_startup_report (snd (start_ollama_server h wait timeout s))) ''attempts''
         = Some (JList [])"
proof -
  define s1 where "s1 = snd (is_ollama_running h s)"
  have run: "is_ollama_running h s = (False, s1)"
    using not_running_run(1) [OF assms(1)] by (simp add: s1_def)
  have tk: "tick s1 = tick s + 2"
    using run by (auto simp: is_ollama_running_eq log_def env_call_def split: if_splits)
  have "inert_run s s1"
    using run by (rule inert_is_ollama_running)
  then have "get_ollama_binary_candidates h s1 = get_ollama_binary_candidates h s"
    by (intro candidates_cong) (auto simp: inert_run_def)
  then have "get_ollama_binary_candidates h s1 \<noteq> []"
    using assms(2) by simp
  then obtain c rest where cs: "get_ollama_binary_candidates h s1 = c # rest"
    by (auto simp: neq_Nil_conv)
  obtain acquired s2 where acq: "acquire_startup_lock h (now s1) (20 * 1000) s1 = (acquired, s2)"
    by force
  have "fst (acquire_startup_lock h (now s1) (20 * 1000) s1) = False"
    using assms(3) tk by (intro acquire_busy [where n = 200]) simp_all
  then have "\<not> acquired"
    using acq by simp
  then show ?thesis
    using run cs acq
    by (simp add: start_ollama_server_def try_block_def set_startup_report_def log_def)
qed

text \<open>
  C1 (as amended): the runtime is not running, a candidate exists, and another caller
  holds the startup lock at each attempt this caller makes during its window of 20 s.
  The attempts are 100 ms or more apart, so there are at most 200 of them, and they fall
  on every second tick after the two of the first health check. Then the lock timeout is
  caught inside \<open>start_ollama_server\<close>: it returns false, and the report records the
  timeout message as its error, with no attempt made.
\<close>

theorem lock_timeout_returns_false:
  assumes "\<not> fst (is_ollama_running h s)"
    and "get_ollama_binary_candidates h s \<noteq> []"
    and "\<forall>i<200. \<not> lock_free h (tick s + 2 + 2 * i)"
  shows "fst (start_ollama_server h wait timeout s) = Inr False
     \<and> map_of (last_startup_report (snd (start_ollama_server h wait timeout s))) ''error''
         = Some (JStr ''Timed out acquiring Ollama startup lock'')
     \<and> map_of (last_startup_report (snd (start_ollama_server h wait timeout s))) ''attempts''
         = Some (JList [])"
  using assms by (rule lock_timeout_result)

lemma host_locked_facts:
  "\<not> fst (is_ollama_running host_locked state0)"
  "get_ollama_binary_candidates host_locked state0 \<noteq> []"
  "\<forall>i<200. \<not> lock_free host_locked (tick state0 + 2 + 2 * i)"
  by (simp_all add: host_defs discovery_defs is_ollama_running_def http_get_ok_def)

theorem lock_timeout_returns_false_witness:
  "\<not> fst (is_ollama_running host_locked state0)
   \<and> get_ollama_binary_candidates host_locked state0 \<noteq> []
   \<and> (\<forall>k. \<not> lock_free host_locked k)
   \<and> fst (start_ollama_server host_locked True 30 state0) = Inr False
   \<and> map_of (last_startup_report (snd (start_ollama_server host_locked True 30 state0)))
        ''error'' = Some (JStr ''Timed out acquiring Ollama startup lock'')"
proof -
  have never: "\<forall>k. \<not> lock_free host_locked k"
    by (simp add: host_defs)
  show ?thesis
    using never host_locked_facts(1,2)
      lock_timeout_returns_false [OF host_locked_facts, of True 30]
    by simp
qed

theorem lock_timeout_not_raised_counterexample:
  "fst (start_ollama_server host_locked True 30 state0) = Inr False
   \<and> fst (start_ollama_server host_locked True 30 state0)
       \<noteq> Inl (TimeoutError ''Timed out acquiring Ollama startup lock'')
   \<and> map_of (last_startup_report (snd (start_ollama_server host_locked True 30 state0)))
        ''error'' = Some (JStr ''Timed out acquiring Ollama startup lock'')"
  using lock_timeout_result [OF host_locked_facts, of True 30]
  by simp

lemma binary_not_found_result:
  assumes "\<not> fst (is_ollama_running h s)"
    and "get_ollama_binary_candidates h s = []"
  shows "fst (start_ollama_server h wait timeout s) = Inr False
     \<and> map_of (get_last_startup_report (snd (start_ollama_server h wait timeout s))) ''error''
         = Some (JStr ''binary_not_found'')
     \<and> trace (snd (start_ollama_server h wait timeout s)) =
         trace s @
         [HttpGet OLLAMA_VERSION_URL 1500 False,
          HttpGet OLLAMA_HEALTH_URL 1500 False,
          SetReport (last_startup_report (snd (start_ollama_server h wait timeout s)))]
     \<and> lock_held (snd (start_ollama_server h wait timeout s)) = lock_held s"
proof -
  define s1 where "s1 = snd (is_ollama_running h s)"
  have run: "is_ollama_running h s = (False, s1)"
    using not_running_run(1) [OF assms(1)] by (simp add: s1_def)
  have tr: "trace s1 = trace s @
           [HttpGet OLLAMA_VERSION_URL 1500 False, HttpGet OLLAMA_HEALTH_URL 1500 False]"
    using not_running_run(2) [OF assms(1)] by (simp add: s1_def)
  have lk: "lock_held s1 = lock_held s"
    using run by (auto simp: is_ollama_running_eq log_def env_call_def split: if_splits)
  have "inert_run s s1"
    using run by (rule inert_is_ollama_running)
  then have "get_ollama_binary_candidates h s1 = get_ollama_binary_candidates h s"
    by (intro candidates_cong) (auto simp: inert_run_def)
  then have cs: "get_ollama_binary_candidates h s1 = []"
    using assms(2) by simp
  show ?thesis
    using run cs tr lk
    by (simp add: start_ollama_server_def set_startup_report_def log_def
        get_last_startup_report_def)
qed

text \<open>
  C3 (as amended): when the runtime is not running and there is no candidate,
  \<open>start_ollama_server\<close> returns false and the last report's error is
  \<open>binary_not_found\<close>; the whole call consists of the two failed health requests and the
  report, so the startup lock is not touched and no candidate is tried.
\<close>

theorem binary_not_found_without_lock:
  assumes "\<not> fst (is_ollama_running h s)"
    and "get_ollama_binary_candidates h s = []"
  shows "fst (start_ollama_server h wait timeout s) = Inr False
     \<and> map_of (get_last_startup_report (snd (start_ollama_server h wait timeout s))) ''error''
         = Some (JStr ''binary_not_found'')
     \<and> trace (snd (start_ollama_server h wait timeout s)) =
         trace s @
         [HttpGet OLLAMA_VERSION_URL 1500 False,
          HttpGet OLLAMA_HEALTH_URL 1500 False,
          SetReport (last_startup_report (snd (start_ollama_server h wait timeout s)))]
     \<and> lock_held (snd (start_ollama_server h wait timeout s)) = lock_held s"
  using assms by (rule binary_not_found_result)

theorem binary_not_found_without_lock_witness:
  "\<not> fst (is_ollama_running host0 state0)
   \<and> get_ollama_binary_candidates host0 state0 = []
   \<and> fst (start_ollama_server host0 True 30 state0) = Inr False
   \<and> map_of (get_last_startup_report (snd (start_ollama_server host0 True 30 state0))) ''error''
       = Some (JStr ''binary_not_found'')
   \<and> trace (snd (start_ollama_server host0 True 30 state0)) =
       [HttpGet OLLAMA_VERSION_URL 1500 False,
        HttpGet OLLAMA_HEALTH_URL 1500 False,
        SetReport (last_startup_report (snd (start_ollama_server host0 True 30 state0)))]"
proof -
  have a: "\<not> fst (is_ollama_running host0 state0)"
    by (simp add: host_defs is_ollama_running_def http_get_ok_def)
  have b: "get_ollama_binary_candidates host0 state0 = []"
    by (simp add: host_defs discovery_defs)
  have c: "trace state0 = []"
    by (simp add: state0_def)
  show ?thesis
    using a b c binary_not_found_without_lock [OF a b, of True 30] by simp
qed

theorem binary_not_found_lock_counterexample:
  "fst (start_ollama_server host_missing_locked True 30 state0) = Inr False
   \<and> map_of (get_last_startup_report
        (snd (start_ollama_server host_missing_locked True 30 state0))) ''error''
       = Some (JStr ''binary_not_found'')
   \<and> LockTry True \<notin> set (trace (snd (start_ollama_server host_missing_locked True 30 state0)))
   \<and> LockTry False \<notin> set (trace (snd (start_ollama_server host_missing_locked True 30 state0)))
   \<and> LockRelease \<notin> set (trace (snd (start_ollama_server host_missing_locked True 30 state0)))"
  by (simp add: host_defs discovery_defs start_ollama_server_def is_ollama_running_def
      http_get_ok_def set_startup_report_def get_last_startup_report_def log_def env_call_def
      timestamp_def)






end
